theory Spec2Isabelle
  imports Main
begin

section \<open>Python values\<close>

text \<open>
  A Python \<open>str\<close> is a \<open>string\<close>. The exceptions the modelled code can raise are values of
  \<open>exn\<close>; a function that can raise returns \<open>exn + 'a\<close>, with \<open>Inl\<close> for the exception.
  \<open>External msg\<close> is an exception raised inside a library or service the repository calls
  (the text splitter, the PDF loader, the language model, the RAG pipeline).
\<close>

datatype exn =
    JSONDecodeError
  | AttributeError
  | TypeError
  | FileNotFoundError
  | OSError
  | External string
  | CustomException exn

text \<open>
  What \<open>json.loads\<close> returns: \<open>None\<close>, a \<open>bool\<close>, an \<open>int\<close>, a \<open>float\<close> (no code here
  inspects its value, which is kept as its literal text), a \<open>str\<close>, a \<open>list\<close> or a \<open>dict\<close>
  (insertion-ordered, keys distinct).
\<close>

datatype json =
    JNull
  | JBool bool
  | JInt int
  | JFloat string
  | JStr string
  | JList "json list"
  | JDict "(string \<times> json) list"

text \<open>\<open>d.get(key, default)\<close> on a dict.\<close>

definition dict_get :: "(string \<times> 'v) list \<Rightarrow> string \<Rightarrow> 'v \<Rightarrow> 'v" where
  "dict_get d key dflt = (case map_of d key of None \<Rightarrow> dflt | Some v \<Rightarrow> v)"

text \<open>
  \<open>str.isspace\<close> for one character, on the code points below 256, and \<open>str.strip()\<close>.
\<close>

definition py_isspace :: "char \<Rightarrow> bool" where
  "py_isspace c = (of_char c \<in> {9, 10, 11, 12, 13, 28, 29, 30, 31, 32, 133, 160 :: nat})"

definition strip :: "string \<Rightarrow> string" where
  "strip s = rev (dropWhile py_isspace (rev (dropWhile py_isspace s)))"

text \<open>\<open>s.find(c)\<close> and \<open>s.rfind(c)\<close> for a one-character needle: an index, or \<open>-1\<close>.\<close>

fun find_from :: "char \<Rightarrow> string \<Rightarrow> int \<Rightarrow> int" where
  "find_from c [] i = - 1"
| "find_from c (x # xs) i = (if x = c then i else find_from c xs (i + 1))"

definition py_find :: "string \<Rightarrow> char \<Rightarrow> int" where
  "py_find s c = find_from c s 0"

fun rfind_from :: "char \<Rightarrow> string \<Rightarrow> int \<Rightarrow> int \<Rightarrow> int" where
  "rfind_from c [] i found = found"
| "rfind_from c (x # xs) i found = rfind_from c xs (i + 1) (if x = c then i else found)"

definition py_rfind :: "string \<Rightarrow> char \<Rightarrow> int" where
  "py_rfind s c = rfind_from c s 0 (- 1)"

text \<open>
  \<open>xs[a:b]\<close>: a negative bound counts from the end, and both bounds are clipped to the
  sequence. \<open>xs[:b]\<close> is \<open>xs[0:b]\<close>.
\<close>

definition slice_bound :: "'a list \<Rightarrow> int \<Rightarrow> nat" where
  "slice_bound xs i =
     (let n = int (length xs) in nat (if i < 0 then max 0 (i + n) else min i n))"

definition py_slice :: "'a list \<Rightarrow> int \<Rightarrow> int \<Rightarrow> 'a list" where
  "py_slice xs a b = take (slice_bound xs b - slice_bound xs a) (drop (slice_bound xs a) xs)"

text \<open>\<open>sep.join(parts)\<close>.\<close>

fun join :: "string \<Rightarrow> string list \<Rightarrow> string" where
  "join sep [] = []"
| "join sep [p] = p"
| "join sep (p # ps) = p @ sep @ join sep ps"

text \<open>\<open>str(n)\<close> for an \<open>int\<close>.\<close>

fun str_nat :: "nat \<Rightarrow> string" where
  "str_nat n =
     (if n < 10 then [''0123456789'' ! n]
      else str_nat (n div 10) @ [''0123456789'' ! (n mod 10)])"

definition str_int :: "int \<Rightarrow> string" where
  "str_int i = (if i < 0 then CHR ''-'' # str_nat (nat (- i)) else str_nat (nat i))"

section \<open>Flashcard parsing (\<open>src/flashcards/flashcard_pipeline.py\<close>)\<close>

text \<open>A flashcard as the parser emits it: \<open>{"question": q, "answer": a}\<close>.\<close>

record card =
  question :: string
  answer :: string

text \<open>
  \<open>json.loads\<close> is the standard library's; it is a parameter of the model, a function from
  the text to the value it decodes, \<open>None\<close> when it raises \<open>JSONDecodeError\<close>.
\<close>

type_synonym json_loads = "string \<Rightarrow> json option"

text \<open>
  The first lines of \<open>_parse_flashcards\<close>: the text that is handed to \<open>json.loads\<close>.
\<close>

definition json_str :: "string \<Rightarrow> string" where
  "json_str raw =
     (let start = py_find raw CHR ''{'';
          endp = py_rfind raw CHR ''}''
      in if start \<noteq> - 1 \<and> endp \<noteq> - 1 \<and> endp > start
         then py_slice raw start (endp + 1)
         else raw)"

text \<open>
  \<open>item.get(key, "").strip()\<close>: \<open>AttributeError\<close> when \<open>item\<close> is not a dict (no \<open>get\<close>), or
  when the value found is not a \<open>str\<close> (no \<open>strip\<close>).
\<close>

definition get_strip :: "json \<Rightarrow> string \<Rightarrow> exn + string" where
  "get_strip item key =
     (case item of
        JDict d \<Rightarrow>
          (case dict_get d key (JStr []) of
             JStr s \<Rightarrow> Inr (strip s)
           | _ \<Rightarrow> Inl AttributeError)
      | _ \<Rightarrow> Inl AttributeError)"

text \<open>
  \<open>for item in cards_raw\<close>: what the loop iterates over. A list gives its items, a dict its
  keys, a \<open>str\<close> its characters; anything else is not iterable.
\<close>

definition py_iter :: "json \<Rightarrow> exn + json list" where
  "py_iter v =
     (case v of
        JList xs \<Rightarrow> Inr xs
      | JDict d \<Rightarrow> Inr (map (\<lambda>kv. JStr (fst kv)) d)
      | JStr s \<Rightarrow> Inr (map (\<lambda>c. JStr [c]) s)
      | _ \<Rightarrow> Inl TypeError)"

text \<open>The loop of \<open>_parse_flashcards\<close>, \<open>cards\<close> being the list built so far.\<close>

fun collect_cards :: "json list \<Rightarrow> card list \<Rightarrow> exn + card list" where
  "collect_cards [] cards = Inr cards"
| "collect_cards (item # rest) cards =
     (case get_strip item ''question'' of
        Inl e \<Rightarrow> Inl e
      | Inr q \<Rightarrow>
          (case get_strip item ''answer'' of
             Inl e \<Rightarrow> Inl e
           | Inr a \<Rightarrow>
               collect_cards rest
                 (if q \<noteq> [] \<and> a \<noteq> [] then cards @ [\<lparr>question = q, answer = a\<rparr>]
                  else cards)))"

text \<open>\<open>data.get("cards", [])\<close> and the loop: everything after \<open>json.loads\<close>.\<close>

definition cards_of_data :: "json \<Rightarrow> exn + card list" where
  "cards_of_data data =
     (case data of
        JDict d \<Rightarrow>
          (case py_iter (dict_get d ''cards'' (JList [])) of
             Inl e \<Rightarrow> Inl e
           | Inr cards_raw \<Rightarrow> collect_cards cards_raw [])
      | _ \<Rightarrow> Inl AttributeError)"

definition parse_flashcards :: "json_loads \<Rightarrow> string \<Rightarrow> exn + card list" where
  "parse_flashcards loads raw =
     (case loads (json_str raw) of
        None \<Rightarrow> Inl JSONDecodeError
      | Some data \<Rightarrow> cards_of_data data)"

section \<open>Documents and chunking (\<open>src/chunking/document_chunking.py\<close>)\<close>

text \<open>
  A LangChain \<open>Document\<close>: its text and its metadata, a dict whose \<open>source\<close> and \<open>doc_type\<close>
  entries are strings (the loaders of \<open>src/ingestion/load_documents.py\<close> set them so).
\<close>

record document =
  page_content :: string
  metadata :: "(string \<times> string) list"

record DocumentChunkingConfig =
  chunks_dir :: string
  chunks_file :: string
  chunk_size :: int
  chunk_overlap :: int

text \<open>
  The defaults of \<open>DocumentChunkingConfig\<close>. \<open>PROJECT_ROOT\<close> is where the package is
  installed; it is a parameter.
\<close>

definition DocumentChunking :: "string \<Rightarrow> DocumentChunkingConfig" where
  "DocumentChunking project_root =
     \<lparr>chunks_dir = project_root @ ''/artifacts/chunks'',
      chunks_file = project_root @ ''/artifacts/chunks/chunks.csv'',
      chunk_size = 1000,
      chunk_overlap = 200\<rparr>"

text \<open>
  \<open>RecursiveCharacterTextSplitter(chunk_size, chunk_overlap).split_documents\<close> belongs to
  the \<open>langchain_text_splitters\<close> library; it is a parameter of the model, a function of
  the two settings and the documents, which may raise.
\<close>

type_synonym splitter = "int \<Rightarrow> int \<Rightarrow> document list \<Rightarrow> exn + document list"

text \<open>
  The file system: the files (path to content) and the directories that exist.
  \<open>os.makedirs(d, exist_ok=True)\<close> and the writing of a whole file are taken to succeed.
\<close>

record filesystem =
  files :: "string \<rightharpoonup> string"
  dirs :: "string set"

definition makedirs :: "filesystem \<Rightarrow> string \<Rightarrow> filesystem" where
  "makedirs fs d = fs\<lparr>dirs := insert d (dirs fs)\<rparr>"

definition write_file :: "filesystem \<Rightarrow> string \<Rightarrow> string \<Rightarrow> filesystem" where
  "write_file fs path text = fs\<lparr>files := (files fs)(path \<mapsto> text)\<rparr>"

text \<open>A \<open>pandas.DataFrame\<close> of strings: the column names and the rows.\<close>

record dataframe =
  columns :: "string list"
  rows :: "string list list"

text \<open>
  \<open>pd.DataFrame(records)\<close> for the list of dicts \<open>create_chunks\<close> builds, each with the keys
  \<open>text\<close>, \<open>source\<close>, \<open>doc_type\<close> in this order: the columns are the keys of the records,
  so an empty list gives a frame with no column.
\<close>

definition DataFrame :: "string list list \<Rightarrow> dataframe" where
  "DataFrame records =
     \<lparr>columns = (if records = [] then [] else [''text'', ''source'', ''doc_type'']),
      rows = records\<rparr>"

text \<open>
  Modelled from the spec: the snapshot writer, \<open>DataFrame.to_csv(path, index=False)\<close> of
  the pandas library, which the repository calls and does not contain. The snapshot is a
  flat table, the header row first and one row per chunk after it; a row is its fields
  separated by commas and ended by a newline, a field that holds a comma, a double quote
  or a line break being written between double quotes with its quotes doubled.
\<close>

definition csv_field :: "string \<Rightarrow> string" where
  "csv_field f =
     (if \<exists>c \<in> set f. c \<in> {CHR '','', CHR 0x22, CHR ''\<newline>'', CHR 0x0D}
      then [CHR 0x22] @ concat (map (\<lambda>c. if c = CHR 0x22 then [c, c] else [c]) f) @ [CHR 0x22]
      else f)"

definition csv_row :: "string list \<Rightarrow> string" where
  "csv_row cells = join '','' (map csv_field cells) @ ''\<newline>''"

definition to_csv :: "dataframe \<Rightarrow> string" where
  "to_csv df = concat (map csv_row (columns df # rows df))"

text \<open>The record \<open>create_chunks\<close> builds for one chunk.\<close>

definition chunk_record :: "document \<Rightarrow> string list" where
  "chunk_record chunk =
     [page_content chunk,
      dict_get (metadata chunk) ''source'' [],
      dict_get (metadata chunk) ''doc_type'' []]"

text \<open>
  \<open>DocumentChunking.create_chunks\<close>. The result is the file system after the call and what
  the call returns or raises; an exception inside the \<open>try\<close> is wrapped in
  \<open>CustomException\<close>.
\<close>

definition create_chunks ::
  "splitter \<Rightarrow> DocumentChunkingConfig \<Rightarrow> filesystem \<Rightarrow> document list
     \<Rightarrow> filesystem \<times> (exn + string \<times> document list)" where
  "create_chunks split_documents config fs documents =
     (if documents = [] then
        (let fs1 = makedirs fs (chunks_dir config);
             empty_df = \<lparr>columns = [''text'', ''source'', ''doc_type''], rows = []\<rparr>
         in (write_file fs1 (chunks_file config) (to_csv empty_df),
             Inr (chunks_file config, [])))
      else
        (case split_documents (chunk_size config) (chunk_overlap config) documents of
           Inl e \<Rightarrow> (fs, Inl (CustomException e))
         | Inr chunks \<Rightarrow>
             (let fs1 = makedirs fs (chunks_dir config);
                  df = DataFrame (map chunk_record chunks)
              in (write_file fs1 (chunks_file config) (to_csv df),
                  Inr (chunks_file config, chunks)))))"

text \<open>\<open>DocumentChunking.create_chunks_in_memory\<close>: no file system in it.\<close>

definition create_chunks_in_memory ::
  "splitter \<Rightarrow> DocumentChunkingConfig \<Rightarrow> document list \<Rightarrow> exn + document list" where
  "create_chunks_in_memory split_documents config documents =
     (if documents = [] then Inr []
      else
        (case split_documents (chunk_size config) (chunk_overlap config) documents of
           Inl e \<Rightarrow> Inl (CustomException e)
         | Inr chunks \<Rightarrow> Inr chunks))"

section \<open>Loading an upload (\<open>src/ingestion/load_documents.py\<close>)\<close>

text \<open>
  \<open>PyPDFLoader(path).load()\<close> belongs to \<open>langchain_community\<close>; it is a parameter, a
  function of the file system and the path, which may raise.
\<close>

type_synonym pdf_loader = "filesystem \<Rightarrow> string \<Rightarrow> exn + document list"

text \<open>\<open>doc.metadata.setdefault(key, value)\<close>.\<close>

definition setdefault :: "string \<Rightarrow> string \<Rightarrow> document \<Rightarrow> document" where
  "setdefault key v doc =
     (case map_of (metadata doc) key of
        None \<Rightarrow> doc\<lparr>metadata := metadata doc @ [(key, v)]\<rparr>
      | Some _ \<Rightarrow> doc)"

definition path_exists :: "filesystem \<Rightarrow> string \<Rightarrow> bool" where
  "path_exists fs path = (files fs path \<noteq> None \<or> path \<in> dirs fs)"

definition load_uploaded_pdf ::
  "pdf_loader \<Rightarrow> filesystem \<Rightarrow> string \<Rightarrow> string \<Rightarrow> exn + document list" where
  "load_uploaded_pdf PyPDFLoader fs path doc_type =
     (if \<not> path_exists fs path then Inl FileNotFoundError
      else
        (case PyPDFLoader fs path of
           Inl e \<Rightarrow> Inl e
         | Inr docs \<Rightarrow> Inr (map (setdefault ''doc_type'' doc_type) docs)))"

section \<open>The flashcard pipeline (\<open>src/flashcards/flashcard_pipeline.py\<close>)\<close>

text \<open>
  \<open>self.llm.invoke(prompt)\<close> followed by reading the response's \<open>content\<close>: the language
  model is a parameter, a function from the prompt to the text it answers, which may raise.
\<close>

record FlashcardPipeline =
  llm :: "string \<Rightarrow> exn + string"
  chunker :: DocumentChunkingConfig
  max_cards :: int

text \<open>
  \<open>FlashcardPipeline.__init__\<close>; \<open>ChatOpenAI\<close> maps a model name to a language model.
\<close>

definition FlashcardPipeline_init ::
  "(string \<Rightarrow> string \<Rightarrow> exn + string) \<Rightarrow> string \<Rightarrow> string \<Rightarrow> int \<Rightarrow> FlashcardPipeline" where
  "FlashcardPipeline_init ChatOpenAI project_root model_name max_cards0 =
     \<lparr>llm = ChatOpenAI model_name,
      chunker = DocumentChunking project_root,
      max_cards = max_cards0\<rparr>"

text \<open>
  \<open>get_flashcard_pipeline\<close> of \<open>src/server/dependencies.py\<close>: \<open>FlashcardPipeline()\<close>, every
  argument at its default.
\<close>

definition get_flashcard_pipeline ::
  "(string \<Rightarrow> string \<Rightarrow> exn + string) \<Rightarrow> string \<Rightarrow> FlashcardPipeline" where
  "get_flashcard_pipeline ChatOpenAI project_root =
     FlashcardPipeline_init ChatOpenAI project_root ''gpt-4.1-mini'' 20"

text \<open>The three literal parts of the f-string of \<open>_build_prompt\<close>.\<close>

definition prompt_head :: string where
  \<open>prompt_head =
     ''\<newline>You are a helpful study assistant.\<newline>\<newline>'' @
     ''Given the following document text, create at most ''\<close>

definition prompt_body :: string where
  \<open>prompt_body =
     '' high-quality flashcards.\<newline>'' @
     ''Each flashcard must contain:\<newline>'' @
     ''- a question (front of the card)\<newline>'' @
     ''- a short, precise answer (back of the card)\<newline>\<newline>'' @
     ''Return ONLY valid JSON in exactly this format:\<newline>\<newline>'' @
     ''{\<newline>'' @
     ''  "cards": [\<newline>'' @
     ''    {"question": "Question 1?", "answer": "Answer 1."},\<newline>'' @
     ''    {"question": "Question 2?", "answer": "Answer 2."}\<newline>'' @
     ''  ]\<newline>'' @
     ''}\<newline>\<newline>'' @
     ''Do not include explanations, comments, or any extra keys.\<newline>\<newline>'' @
     ''Document text:\<newline>'' @
     ''"""''\<close>

definition prompt_tail :: string where
  \<open>prompt_tail = ''"""\<newline>''\<close>

definition build_prompt :: "string \<Rightarrow> int \<Rightarrow> string" where
  "build_prompt text num_cards =
     prompt_head @ str_int num_cards @ prompt_body @ text @ prompt_tail"

text \<open>\<open>max_cards or self.max_cards\<close>: \<open>None\<close> and \<open>0\<close> are falsy.\<close>

definition or_default :: "int option \<Rightarrow> int \<Rightarrow> int" where
  "or_default override dflt =
     (case override of
        None \<Rightarrow> dflt
      | Some n \<Rightarrow> if n = 0 then dflt else n)"

text \<open>
  \<open>generate_from_docs\<close>. The first component of the result lists the prompts sent to the
  language model, the second is what the call returns or raises.
\<close>

definition generate_from_docs ::
  "splitter \<Rightarrow> json_loads \<Rightarrow> FlashcardPipeline \<Rightarrow> document list \<Rightarrow> int option
     \<Rightarrow> string list \<times> (exn + card list)" where
  "generate_from_docs split_documents loads self documents max_cards0 =
     (if documents = [] then ([], Inr [])
      else
        (case create_chunks_in_memory split_documents (chunker self) documents of
           Inl e \<Rightarrow> ([], Inl e)
         | Inr chunks \<Rightarrow>
             if chunks = [] then ([], Inr [])
             else
               (let combined_text = join ''\<newline>\<newline>'' (map page_content chunks);
                    num_cards = or_default max_cards0 (max_cards self);
                    prompt = build_prompt combined_text num_cards
                in case llm self prompt of
                     Inl e \<Rightarrow> ([prompt], Inl e)
                   | Inr raw_output \<Rightarrow> ([prompt], parse_flashcards loads raw_output))))"

section \<open>The server (\<open>src/server/schemas.py\<close>, \<open>src/server/app.py\<close>)\<close>

record ChatMessage =
  role :: string
  content :: string

record AskRequest =
  req_question :: string
  req_doc_type :: "string option"
  req_history :: "ChatMessage list"

record SourceDocument =
  source :: "string option"
  doc_type :: "string option"
  preview :: string

record AskResponse =
  resp_answer :: string
  sources :: "SourceDocument list"

text \<open>\<open>Flashcard\<close> has the fields of a parsed card, so \<open>Flashcard(**card)\<close> is the card.\<close>

record FlashcardResponse =
  flashcards :: "card list"

text \<open>
  What a request ends with: the handler's return value, the \<open>HTTPException\<close> it raises
  (the status code, and the exception whose text is the detail), or the framework's
  response to a body that fails validation (status 422).
\<close>

datatype 'a http =
    Returned 'a
  | HTTPException nat exn
  | RequestValidationError

definition status_code :: "'a http \<Rightarrow> nat" where
  "status_code r =
     (case r of
        Returned _ \<Rightarrow> 200
      | HTTPException code _ \<Rightarrow> code
      | RequestValidationError \<Rightarrow> 422)"

text \<open>\<open>s.replace("\n", " ")\<close>.\<close>

definition replace_newlines :: "string \<Rightarrow> string" where
  "replace_newlines s = map (\<lambda>c. if c = CHR ''\<newline>'' then CHR '' '' else c) s"

text \<open>
  The body of the loop of \<open>_build_sources\<close>: the summary of one document;
  \<open>metadata.get(key)\<close> is \<open>None\<close> for a missing key.
\<close>

definition source_summary :: "document \<Rightarrow> SourceDocument" where
  "source_summary doc =
     \<lparr>source = map_of (metadata doc) ''source'',
      doc_type = map_of (metadata doc) ''doc_type'',
      preview = replace_newlines (strip (py_slice (page_content doc) 0 280))\<rparr>"

definition build_sources :: "document list \<Rightarrow> int \<Rightarrow> SourceDocument list" where
  "build_sources docs max_items = map source_summary (py_slice docs 0 max_items)"

text \<open>
  \<open>RAGPipeline.answer_question(question, history, doc_type)\<close> is the QA orchestrator; it is
  a parameter, which returns an answer and the supporting documents, or raises. A call to
  it is recorded as its three arguments.
\<close>

type_synonym orchestrator_call = "string \<times> (string \<times> string) list \<times> string option"

type_synonym orchestrator = "orchestrator_call \<Rightarrow> exn + string \<times> document list"

text \<open>
  The handler \<open>ask_question\<close>. The first component of the result lists the calls made to
  the orchestrator.
\<close>

definition ask_question ::
  "orchestrator \<Rightarrow> AskRequest \<Rightarrow> orchestrator_call list \<times> AskResponse http" where
  "ask_question pipeline payload =
     (let history = map (\<lambda>msg. (role msg, content msg)) (req_history payload);
          call = (req_question payload, history, req_doc_type payload)
      in case pipeline call of
           Inl exc \<Rightarrow> ([call], HTTPException 500 exc)
         | Inr (answer0, docs) \<Rightarrow>
             ([call], Returned \<lparr>resp_answer = answer0, sources = build_sources docs 3\<rparr>))"

text \<open>
  The constraints that the schemas declare on the body of \<open>/ask\<close>:
  \<open>question: str = Field(..., min_length=1)\<close> in \<open>AskRequest\<close> and
  \<open>role: Literal["user", "assistant"]\<close> in \<open>ChatMessage\<close>.
\<close>

definition valid_AskRequest :: "AskRequest \<Rightarrow> bool" where
  \<open>valid_AskRequest payload =
     (1 \<le> length (req_question payload) \<and>
      list_all (\<lambda>msg. role msg = ''user'' \<or> role msg = ''assistant'') (req_history payload))\<close>

text \<open>
  Modelled from the spec: the request validation of the API layer, which FastAPI performs
  for a handler declared with \<open>payload: AskRequest\<close> and the repository does not contain.
  A body that does not satisfy the declared constraints is answered with a validation
  failure and the handler is not called; otherwise the handler runs on the body.
\<close>

definition post_ask ::
  "orchestrator \<Rightarrow> AskRequest \<Rightarrow> orchestrator_call list \<times> AskResponse http" where
  "post_ask pipeline body =
     (if valid_AskRequest body then ask_question pipeline body
      else ([], RequestValidationError))"

text \<open>
  What the handler of \<open>/flashcards\<close> meets outside the repository's code: the outcome of
  \<open>await file.read()\<close>, the name \<open>NamedTemporaryFile\<close> picks, and the errors of creating the
  temporary file and of writing the upload to it (\<open>tmp.write\<close> and the close that ends the
  \<open>with\<close> block), \<open>None\<close> when they succeed.
\<close>

record upload_io =
  read_result :: "exn + string"
  tmp_name :: string
  create_error :: "exn option"
  write_error :: "exn option"

text \<open>\<open>os.remove(path)\<close>: the file system after it, and the exception if it raises.\<close>

definition os_remove :: "filesystem \<Rightarrow> string \<Rightarrow> filesystem \<times> exn option" where
  "os_remove fs path =
     (if files fs path = None then (fs, Some FileNotFoundError)
      else (fs\<lparr>files := (files fs)(path := None)\<rparr>, None))"

text \<open>
  The body of the inner \<open>try\<close> of \<open>generate_flashcards\<close>: load, generate, build the response.
\<close>

definition flashcards_body ::
  "pdf_loader \<Rightarrow> splitter \<Rightarrow> json_loads \<Rightarrow> FlashcardPipeline \<Rightarrow> filesystem \<Rightarrow> string \<Rightarrow> int
     \<Rightarrow> exn + FlashcardResponse" where
  "flashcards_body PyPDFLoader split_documents loads flashcard_pipeline fs tmp_path max_cards0 =
     (case load_uploaded_pdf PyPDFLoader fs tmp_path ''flashcard_upload'' of
        Inl e \<Rightarrow> Inl e
      | Inr docs \<Rightarrow>
          (case snd (generate_from_docs split_documents loads flashcard_pipeline docs
                       (Some max_cards0)) of
             Inl e \<Rightarrow> Inl e
           | Inr cards \<Rightarrow> Inr \<lparr>flashcards = cards\<rparr>))"

text \<open>
  The handler \<open>generate_flashcards\<close>: the file system when it finishes, and how it ends.
  \<open>NamedTemporaryFile(delete=False)\<close> creates the file, empty; the inner \<open>try\<close> starts after
  the \<open>with\<close> block, and its \<open>finally\<close> runs \<open>os.remove\<close>, whose exception replaces the
  outcome of the body; the outer \<open>except\<close> turns every exception into status 500.
\<close>

definition generate_flashcards ::
  "pdf_loader \<Rightarrow> splitter \<Rightarrow> json_loads \<Rightarrow> FlashcardPipeline \<Rightarrow> filesystem \<Rightarrow> upload_io \<Rightarrow> int
     \<Rightarrow> filesystem \<times> FlashcardResponse http" where
  "generate_flashcards PyPDFLoader split_documents loads flashcard_pipeline fs io max_cards0 =
     (case read_result io of
        Inl exc \<Rightarrow> (fs, HTTPException 500 exc)
      | Inr contents \<Rightarrow>
          (case create_error io of
             Some exc \<Rightarrow> (fs, HTTPException 500 exc)
           | None \<Rightarrow>
               (let fs1 = write_file fs (tmp_name io) [] in
                case write_error io of
                  Some exc \<Rightarrow> (fs1, HTTPException 500 exc)
                | None \<Rightarrow>
                    (let fs2 = write_file fs1 (tmp_name io) contents;
                         tmp_path = tmp_name io;
                         outcome = flashcards_body PyPDFLoader split_documents loads
                                     flashcard_pipeline fs2 tmp_path max_cards0;
                         (fs3, remove_exc) = os_remove fs2 tmp_path
                     in case remove_exc of
                          Some exc \<Rightarrow> (fs3, HTTPException 500 exc)
                        | None \<Rightarrow>
                            (case outcome of
                               Inl exc \<Rightarrow> (fs3, HTTPException 500 exc)
                             | Inr response \<Rightarrow> (fs3, Returned response))))))"

section \<open>Vocabulary of the statements\<close>

text \<open>
  An entry of the \<open>cards\<close> list seen from outside the loop. A card object is a dict whose
  \<open>question\<close> and \<open>answer\<close>, when present, are strings; \<open>text_at\<close> is the text of a field,
  empty when the field is missing; an entry is non-blank when both texts are non-empty
  once trimmed, and \<open>trimmed_card\<close> is the card made of the two trimmed texts.
\<close>

definition is_str_field :: "(string \<times> json) list \<Rightarrow> string \<Rightarrow> bool" where
  "is_str_field d key =
     (case map_of d key of None \<Rightarrow> True | Some (JStr _) \<Rightarrow> True | Some _ \<Rightarrow> False)"

definition is_card_object :: "json \<Rightarrow> bool" where
  "is_card_object item =
     (case item of
        JDict d \<Rightarrow> is_str_field d ''question'' \<and> is_str_field d ''answer''
      | _ \<Rightarrow> False)"

definition text_at :: "json \<Rightarrow> string \<Rightarrow> string" where
  "text_at item key =
     (case item of
        JDict d \<Rightarrow> (case map_of d key of Some (JStr s) \<Rightarrow> s | _ \<Rightarrow> [])
      | _ \<Rightarrow> [])"

definition nonblank :: "json \<Rightarrow> bool" where
  "nonblank item =
     (strip (text_at item ''question'') \<noteq> [] \<and> strip (text_at item ''answer'') \<noteq> [])"

definition trimmed_card :: "json \<Rightarrow> card" where
  "trimmed_card item =
     \<lparr>question = strip (text_at item ''question''), answer = strip (text_at item ''answer'')\<rparr>"

section \<open>Searching and slicing\<close>

lemma find_from_absent: "c \<notin> set s \<Longrightarrow> find_from c s i = - 1"
  by (induction s arbitrary: i) auto

lemma find_from_first: "c \<notin> set pre \<Longrightarrow> find_from c (pre @ c # rest) i = i + int (length pre)"
  by (induction pre arbitrary: i) auto

lemma rfind_from_absent: "c \<notin> set s \<Longrightarrow> rfind_from c s i found = found"
  by (induction s arbitrary: i found) auto

lemma rfind_from_last:
  "c \<notin> set post \<Longrightarrow> rfind_from c (pre @ c # post) i found = i + int (length pre)"
  by (induction pre arbitrary: i found) (auto simp: rfind_from_absent)

lemma py_find_absent: "c \<notin> set s \<Longrightarrow> py_find s c = - 1"
  by (simp add: py_find_def find_from_absent)

lemma py_find_first: "c \<notin> set pre \<Longrightarrow> py_find (pre @ c # rest) c = int (length pre)"
  by (simp add: py_find_def find_from_first)

lemma py_rfind_absent: "c \<notin> set s \<Longrightarrow> py_rfind s c = - 1"
  by (simp add: py_rfind_def rfind_from_absent)

lemma py_rfind_last: "c \<notin> set post \<Longrightarrow> py_rfind (pre @ c # post) c = int (length pre)"
  by (simp add: py_rfind_def rfind_from_last)

lemma split_first: "c \<in> set s \<Longrightarrow> \<exists>pre rest. s = pre @ c # rest \<and> c \<notin> set pre"
  by (meson split_list_first)

lemma split_last: "c \<in> set s \<Longrightarrow> \<exists>pre post. s = pre @ c # post \<and> c \<notin> set post"
  by (meson split_list_last)

lemma py_slice_mid:
  "py_slice (pre @ mid @ post) (int (length pre)) (int (length pre + length mid)) = mid"
  by (simp add: py_slice_def slice_bound_def)

lemma json_str_eq:
  "py_find raw CHR ''{'' = a \<Longrightarrow> py_rfind raw CHR ''}'' = b \<Longrightarrow>
   json_str raw = (if a \<noteq> - 1 \<and> b \<noteq> - 1 \<and> b > a then py_slice raw a (b + 1) else raw)"
  by (simp add: json_str_def Let_def)

lemma json_str_pair:
  assumes "CHR ''{'' \<notin> set pre" "CHR ''}'' \<notin> set post"
  shows "json_str (pre @ CHR ''{'' # mid @ CHR ''}'' # post) = CHR ''{'' # mid @ [CHR ''}'']"
proof -
  let ?raw = "pre @ CHR ''{'' # mid @ CHR ''}'' # post"
  let ?m = "CHR ''{'' # mid @ [CHR ''}'']"
  have f: "py_find ?raw CHR ''{'' = int (length pre)"
    using assms(1) by (rule py_find_first)
  have "?raw = (pre @ CHR ''{'' # mid) @ CHR ''}'' # post" by simp
  then have r: "py_rfind ?raw CHR ''}'' = int (length (pre @ CHR ''{'' # mid))"
    using py_rfind_last [OF assms(2), of "pre @ CHR ''{'' # mid"] by simp
  have raw: "?raw = pre @ ?m @ post" by simp
  have s: "py_slice (pre @ ?m @ post) (int (length pre)) (int (length pre + length ?m)) = ?m"
    by (rule py_slice_mid)
  have e: "int (length (pre @ CHR ''{'' # mid)) + 1 = int (length pre + length ?m)"
    by simp
  have "json_str ?raw = py_slice ?raw (int (length pre)) (int (length (pre @ CHR ''{'' # mid)) + 1)"
    using json_str_eq [OF f r] by simp
  also have "\<dots> = ?m"
    unfolding e raw by (rule s)
  finally show ?thesis .
qed

lemma split_two:
  assumes "i < j" "j < length xs"
  shows "xs = take i xs @ xs ! i # drop (Suc i) (take j xs) @ xs ! j # drop (Suc j) xs"
proof -
  have a: "xs = take j xs @ xs ! j # drop (Suc j) xs"
    using assms(2) by (rule id_take_nth_drop)
  have "i < length (take j xs)" using assms by simp
  then have "take j xs = take i (take j xs) @ take j xs ! i # drop (Suc i) (take j xs)"
    by (rule id_take_nth_drop)
  moreover have "take i (take j xs) = take i xs" using assms(1) by (simp add: min_def)
  moreover have "take j xs ! i = xs ! i" using assms(1) by simp
  ultimately have b: "take j xs = take i xs @ xs ! i # drop (Suc i) (take j xs)" by simp
  show ?thesis
    by (subst a, subst b) simp
qed

lemma json_str_no_pair:
  assumes "\<not> (\<exists>pre mid post. raw = pre @ CHR ''{'' # mid @ CHR ''}'' # post)"
  shows "json_str raw = raw"
proof (cases "CHR ''{'' \<in> set raw \<and> CHR ''}'' \<in> set raw")
  case False
  then have "py_find raw CHR ''{'' = - 1 \<or> py_rfind raw CHR ''}'' = - 1"
    using py_find_absent py_rfind_absent by blast
  then show ?thesis
    using json_str_eq [OF refl refl, of raw] by auto
next
  case True
  then have m1: "CHR ''{'' \<in> set raw" and m2: "CHR ''}'' \<in> set raw"
    by (rule conjunct1, rule conjunct2)
  from split_first [OF m1] obtain pre where "\<exists>rest. raw = pre @ CHR ''{'' # rest \<and> CHR ''{'' \<notin> set pre" ..
  then obtain rest where ab: "raw = pre @ CHR ''{'' # rest \<and> CHR ''{'' \<notin> set pre" ..
  from ab have a: "raw = pre @ CHR ''{'' # rest" by (rule conjunct1)
  from ab have a': "CHR ''{'' \<notin> set pre" by (rule conjunct2)
  from split_last [OF m2] obtain pre' where "\<exists>post. raw = pre' @ CHR ''}'' # post \<and> CHR ''}'' \<notin> set post" ..
  then obtain post where cd: "raw = pre' @ CHR ''}'' # post \<and> CHR ''}'' \<notin> set post" ..
  from cd have b: "raw = pre' @ CHR ''}'' # post" by (rule conjunct1)
  from cd have b': "CHR ''}'' \<notin> set post" by (rule conjunct2)
  have f: "py_find raw CHR ''{'' = int (length pre)"
    unfolding a using a' by (rule py_find_first)
  have r: "py_rfind raw CHR ''}'' = int (length pre')"
    unfolding b using b' by (rule py_rfind_last)
  have i: "raw ! length pre = CHR ''{''" unfolding a by simp
  have j: "raw ! length pre' = CHR ''}''" unfolding b by simp
  have l: "length pre' < length raw" unfolding b by simp
  have "\<not> length pre < length pre'"
  proof
    assume lt: "length pre < length pre'"
    have "raw = take (length pre) raw @ CHR ''{'' # drop (Suc (length pre)) (take (length pre') raw)
                 @ CHR ''}'' # drop (Suc (length pre')) raw"
      using split_two [OF lt l] unfolding i j .
    then have "\<exists>pre mid post. raw = pre @ CHR ''{'' # mid @ CHR ''}'' # post"
      by (intro exI)
    with assms show False by (rule notE)
  qed
  then show ?thesis
    using json_str_eq [OF f r] by simp
qed

lemma first_le:
  assumes "raw = pre @ c # rest" "c \<notin> set pre" "raw ! i = c"
  shows "length pre \<le> i"
proof (rule ccontr)
  assume "\<not> length pre \<le> i"
  then have lt: "i < length pre" by simp
  then have "raw ! i = pre ! i" unfolding assms(1) by (simp add: nth_append)
  moreover have "pre ! i \<in> set pre" using lt by (rule nth_mem)
  ultimately show False using assms(2,3) by simp
qed

lemma last_ge:
  assumes "raw = pre @ c # post" "c \<notin> set post" "j < length raw" "raw ! j = c"
  shows "j \<le> length pre"
proof (rule ccontr)
  assume "\<not> j \<le> length pre"
  then have gt: "length pre < j" by simp
  let ?k = "j - length pre - 1"
  have k: "?k < length post" using gt assms(3) unfolding assms(1) by simp
  have "raw ! j = post ! ?k" unfolding assms(1) using gt by (simp add: nth_append nth_Cons')
  moreover have "post ! ?k \<in> set post" using k by (rule nth_mem)
  ultimately show False using assms(2,4) by simp
qed

lemma pair_decomp:
  assumes "raw = p @ CHR ''{'' # m @ CHR ''}'' # q"
  shows "\<exists>pre mid post. raw = pre @ CHR ''{'' # mid @ CHR ''}'' # post \<and>
           CHR ''{'' \<notin> set pre \<and> CHR ''}'' \<notin> set post"
proof -
  have m1: "CHR ''{'' \<in> set raw" and m2: "CHR ''}'' \<in> set raw"
    unfolding assms by simp_all
  from split_first [OF m1] obtain pre where "\<exists>rest. raw = pre @ CHR ''{'' # rest \<and> CHR ''{'' \<notin> set pre" ..
  then obtain rest where ab: "raw = pre @ CHR ''{'' # rest \<and> CHR ''{'' \<notin> set pre" ..
  from ab have a: "raw = pre @ CHR ''{'' # rest" by (rule conjunct1)
  from ab have a': "CHR ''{'' \<notin> set pre" by (rule conjunct2)
  from split_last [OF m2] obtain pre' where "\<exists>post. raw = pre' @ CHR ''}'' # post \<and> CHR ''}'' \<notin> set post" ..
  then obtain post where cd: "raw = pre' @ CHR ''}'' # post \<and> CHR ''}'' \<notin> set post" ..
  from cd have b: "raw = pre' @ CHR ''}'' # post" by (rule conjunct1)
  from cd have b': "CHR ''}'' \<notin> set post" by (rule conjunct2)
  have pi: "raw ! length p = CHR ''{''" unfolding assms by simp
  have "p @ CHR ''{'' # m @ CHR ''}'' # q = (p @ CHR ''{'' # m) @ CHR ''}'' # q" by simp
  then have pj: "raw ! (length p + 1 + length m) = CHR ''}''"
    unfolding assms by (simp add: nth_append)
  have pl: "length p + 1 + length m < length raw" unfolding assms by simp
  have "length pre \<le> length p" using a a' pi by (rule first_le)
  moreover have "length p + 1 + length m \<le> length pre'" using b b' pl pj by (rule last_ge)
  ultimately have lt: "length pre < length pre'" by simp
  have l: "length pre' < length raw" unfolding b by simp
  have i: "raw ! length pre = CHR ''{''" unfolding a by simp
  have j: "raw ! length pre' = CHR ''}''" unfolding b by simp
  have t: "take (length pre) raw = pre" unfolding a by simp
  have d: "drop (Suc (length pre')) raw = post" unfolding b by simp
  have "raw = pre @ CHR ''{'' # drop (Suc (length pre)) (take (length pre') raw) @ CHR ''}'' # post"
    using split_two [OF lt l] unfolding i j t d .
  then have "raw = pre @ CHR ''{'' # drop (Suc (length pre)) (take (length pre') raw) @ CHR ''}'' # post \<and>
           CHR ''{'' \<notin> set pre \<and> CHR ''}'' \<notin> set post"
    using a' b' by (intro conjI)
  then show ?thesis by (intro exI)
qed

section \<open>The loop over the cards\<close>

lemma get_strip_str_field:
  "is_str_field d key \<Longrightarrow> get_strip (JDict d) key = Inr (strip (text_at (JDict d) key))"
  by (simp add: is_str_field_def get_strip_def text_at_def dict_get_def
      split: option.splits json.splits)

lemma get_strip_not_str_field:
  "\<not> is_str_field d key \<Longrightarrow> get_strip (JDict d) key = Inl AttributeError"
  by (simp add: is_str_field_def get_strip_def dict_get_def split: option.splits json.splits)

lemma get_strip_not_dict:
  "\<forall>d. item \<noteq> JDict d \<Longrightarrow> get_strip item key = Inl AttributeError"
  by (cases item) (simp_all add: get_strip_def)

lemma get_strip_error: "get_strip item key = Inl e \<Longrightarrow> e = AttributeError"
  by (simp add: get_strip_def split: json.splits)

lemma collect_cards_step_ok:
  assumes "is_card_object item"
  shows "collect_cards (item # rest) cards =
           collect_cards rest (if nonblank item then cards @ [trimmed_card item] else cards)"
proof -
  from assms obtain d where i: "item = JDict d"
    by (cases item) (simp_all add: is_card_object_def)
  from assms have q: "is_str_field d ''question''" and a: "is_str_field d ''answer''"
    unfolding i by (simp_all add: is_card_object_def)
  show ?thesis
    unfolding i
    by (simp add: get_strip_str_field [OF q] get_strip_str_field [OF a] nonblank_def
        trimmed_card_def)
qed

lemma collect_cards_step_bad:
  assumes "\<not> is_card_object item"
  shows "collect_cards (item # rest) cards = Inl AttributeError"
proof (cases "\<exists>d. item = JDict d")
  case False
  then have "\<forall>d. item \<noteq> JDict d" by simp
  then have "get_strip item ''question'' = Inl AttributeError"
    by (rule get_strip_not_dict)
  then show ?thesis by simp
next
  case True
  then obtain d where i: "item = JDict d" by (elim exE)
  show ?thesis
  proof (cases "is_str_field d ''question''")
    case False
    then show ?thesis unfolding i by (simp add: get_strip_not_str_field)
  next
    case True
    with assms have "\<not> is_str_field d ''answer''"
      unfolding i by (simp add: is_card_object_def)
    then show ?thesis
      unfolding i by (simp add: get_strip_str_field [OF True] get_strip_not_str_field)
  qed
qed

lemma collect_cards_all_ok:
  "list_all is_card_object items \<Longrightarrow>
   collect_cards items cards = Inr (cards @ map trimmed_card (filter nonblank items))"
proof (induction items arbitrary: cards)
  case Nil
  then show ?case by simp
next
  case (Cons item rest)
  then have i: "is_card_object item" and r: "list_all is_card_object rest" by simp_all
  show ?case
    unfolding collect_cards_step_ok [OF i] Cons.IH [OF r] by simp
qed

lemma collect_cards_some_bad:
  "\<not> list_all is_card_object items \<Longrightarrow> collect_cards items cards = Inl AttributeError"
proof (induction items arbitrary: cards)
  case Nil
  then show ?case by simp
next
  case (Cons item rest)
  show ?case
  proof (cases "is_card_object item")
    case False
    then show ?thesis by (rule collect_cards_step_bad)
  next
    case True
    with Cons.prems have "\<not> list_all is_card_object rest" by simp
    then show ?thesis
      unfolding collect_cards_step_ok [OF True] by (rule Cons.IH)
  qed
qed

lemma cards_of_data_list:
  assumes "map_of d ''cards'' = Some (JList items)"
  shows "cards_of_data (JDict d) = collect_cards items []"
  using assms by (simp add: cards_of_data_def dict_get_def py_iter_def)

lemmas eval_json_str = json_str_def py_find_def py_rfind_def py_slice_def slice_bound_def


section \<open>Claims about the flashcard parser\<close>

text \<open>
  C2 (amended). The parser hands to \<open>json.loads\<close> the substring from the first \<open>{\<close> to the
  last \<open>}\<close> when the response holds a \<open>{\<close> with a \<open>}\<close> somewhere after it; in every other
  case (no \<open>{\<close>, no \<open>}\<close>, or every \<open>}\<close> before the first \<open>{\<close>) it hands over the raw
  response. When \<open>json.loads\<close> rejects that text the parser fails with the decoding error,
  and otherwise it goes on with the decoded value.
\<close>

theorem parse_flashcards_brace_pair_or_raw:
  "((\<exists>p m q. raw = p @ CHR ''{'' # m @ CHR ''}'' # q) \<longrightarrow>
      (\<exists>pre mid post. raw = pre @ CHR ''{'' # mid @ CHR ''}'' # post \<and>
         CHR ''{'' \<notin> set pre \<and> CHR ''}'' \<notin> set post \<and>
         json_str raw = CHR ''{'' # mid @ [CHR ''}''])) \<and>
   (\<not> (\<exists>p m q. raw = p @ CHR ''{'' # m @ CHR ''}'' # q) \<longrightarrow> json_str raw = raw) \<and>
   (loads (json_str raw) = None \<longrightarrow> parse_flashcards loads raw = Inl JSONDecodeError) \<and>
   (\<forall>data. loads (json_str raw) = Some data \<longrightarrow> parse_flashcards loads raw = cards_of_data data)"
proof (intro conjI impI allI)
  assume "\<exists>p m q. raw = p @ CHR ''{'' # m @ CHR ''}'' # q"
  then obtain p m q where "raw = p @ CHR ''{'' # m @ CHR ''}'' # q" by (elim exE)
  from pair_decomp [OF this] obtain pre mid post where
    d: "raw = pre @ CHR ''{'' # mid @ CHR ''}'' # post \<and>
        CHR ''{'' \<notin> set pre \<and> CHR ''}'' \<notin> set post"
    by (elim exE)
  then have r: "raw = pre @ CHR ''{'' # mid @ CHR ''}'' # post"
    and n1: "CHR ''{'' \<notin> set pre" and n2: "CHR ''}'' \<notin> set post"
    by (rule conjunct1, rule conjunct2 [THEN conjunct1], rule conjunct2 [THEN conjunct2])
  have "json_str raw = CHR ''{'' # mid @ [CHR ''}'']"
    unfolding r using n1 n2 by (rule json_str_pair)
  with r n1 n2 have "raw = pre @ CHR ''{'' # mid @ CHR ''}'' # post \<and>
         CHR ''{'' \<notin> set pre \<and> CHR ''}'' \<notin> set post \<and>
         json_str raw = CHR ''{'' # mid @ [CHR ''}'']"
    by (intro conjI)
  then show "\<exists>pre mid post. raw = pre @ CHR ''{'' # mid @ CHR ''}'' # post \<and>
         CHR ''{'' \<notin> set pre \<and> CHR ''}'' \<notin> set post \<and>
         json_str raw = CHR ''{'' # mid @ [CHR ''}'']"
    by (intro exI)
next
  assume "\<not> (\<exists>p m q. raw = p @ CHR ''{'' # m @ CHR ''}'' # q)"
  then show "json_str raw = raw" by (rule json_str_no_pair)
next
  assume "loads (json_str raw) = None"
  then show "parse_flashcards loads raw = Inl JSONDecodeError"
    by (simp add: parse_flashcards_def)
next
  fix data
  assume "loads (json_str raw) = Some data"
  then show "parse_flashcards loads raw = cards_of_data data"
    by (simp add: parse_flashcards_def)
qed

text \<open>
  The theorem at a response with prose around the braces, and at one without braces that
  \<open>json.loads\<close> rejects.
\<close>

theorem parse_flashcards_brace_pair_or_raw_witness:
  "hd (json_str ''Sure: {x} ok'') = CHR ''{'' \<and>
   json_str ''no json'' = ''no json'' \<and>
   parse_flashcards (\<lambda>s. None) ''no json'' = Inl JSONDecodeError"
proof -
  let ?r = "''Sure: {x} ok''" and ?s = "''no json''"
  note t = parse_flashcards_brace_pair_or_raw [of ?r "\<lambda>s. None"]
    and u = parse_flashcards_brace_pair_or_raw [of ?s "\<lambda>s. None"]
  have e: "\<exists>p m q. ?r = p @ CHR ''{'' # m @ CHR ''}'' # q"
    by (rule exI [of _ "''Sure: ''"], rule exI [of _ "''x''"], rule exI [of _ "'' ok''"]) simp
  from t have "(\<exists>p m q. ?r = p @ CHR ''{'' # m @ CHR ''}'' # q) \<longrightarrow>
      (\<exists>pre mid post. ?r = pre @ CHR ''{'' # mid @ CHR ''}'' # post \<and>
         CHR ''{'' \<notin> set pre \<and> CHR ''}'' \<notin> set post \<and>
         json_str ?r = CHR ''{'' # mid @ [CHR ''}''])"
    by (rule conjunct1)
  from this e have "\<exists>pre mid post. ?r = pre @ CHR ''{'' # mid @ CHR ''}'' # post \<and>
         CHR ''{'' \<notin> set pre \<and> CHR ''}'' \<notin> set post \<and>
         json_str ?r = CHR ''{'' # mid @ [CHR ''}'']"
    by (rule mp)
  then obtain mid where "json_str ?r = CHR ''{'' # mid @ [CHR ''}'']"
    by (elim exE conjE)
  then have a: "hd (json_str ?r) = CHR ''{''" by simp
  have n: "\<not> (\<exists>p m q. ?s = p @ CHR ''{'' # m @ CHR ''}'' # q)"
  proof
    assume "\<exists>p m q. ?s = p @ CHR ''{'' # m @ CHR ''}'' # q"
    then obtain p m q where e: "?s = p @ CHR ''{'' # m @ CHR ''}'' # q" by (elim exE)
    have "CHR ''{'' \<in> set (p @ CHR ''{'' # m @ CHR ''}'' # q)" by simp
    then have "CHR ''{'' \<in> set ?s" by (simp only: e [symmetric])
    then show False by simp
  qed
  from u have "\<not> (\<exists>p m q. ?s = p @ CHR ''{'' # m @ CHR ''}'' # q) \<longrightarrow> json_str ?s = ?s"
    by (rule conjunct2 [THEN conjunct1])
  from this n have b: "json_str ?s = ?s" by (rule mp)
  from u have "(None :: json option) = None \<longrightarrow>
      parse_flashcards (\<lambda>s. None) ?s = Inl JSONDecodeError"
    by (rule conjunct2 [THEN conjunct2, THEN conjunct1])
  then have c: "parse_flashcards (\<lambda>s. None) ?s = Inl JSONDecodeError" by simp
  from a b c show ?thesis by (intro conjI)
qed


text \<open>
  C2 as stated fails where both braces exist in the wrong order: in \<open>}{\<close> the first \<open>{\<close>
  is at index 1 and the last \<open>}\<close> at index 0, the guard \<open>end > start\<close> is false, and the raw
  response is what gets parsed, not the (empty) slice from the one brace to the other.
\<close>

theorem parse_flashcards_braces_out_of_order:
  "CHR ''{'' \<in> set ''}{'' \<and> CHR ''}'' \<in> set ''}{'' \<and>
   py_find ''}{'' CHR ''{'' = 1 \<and> py_rfind ''}{'' CHR ''}'' = 0 \<and>
   json_str ''}{'' = ''}{'' \<and>
   py_slice ''}{'' (py_find ''}{'' CHR ''{'') (py_rfind ''}{'' CHR ''}'' + 1) = []"
  by (simp add: eval_json_str)


text \<open>
  The spec's example of a tolerant parse: prose, one card as JSON, prose. \<open>json.loads\<close> is
  given by what it decodes the extracted text to.
\<close>

lemma parse_flashcards_prose_around_json:
  \<open>parse_flashcards
     (map_of
        [(''{"cards":[{"question":"Q","answer":"A"}]}'',
          JDict [(''cards'', JList [JDict [(''question'', JStr ''Q''), (''answer'', JStr ''A'')]])])])
     ''Here are your cards: {"cards":[{"question":"Q","answer":"A"}]} Good luck!''
   = Inr [\<lparr>question = ''Q'', answer = ''A''\<rparr>]\<close>
proof -
  have j: \<open>json_str ''Here are your cards: {"cards":[{"question":"Q","answer":"A"}]} Good luck!''
           = ''{"cards":[{"question":"Q","answer":"A"}]}''\<close>
    by (simp add: eval_json_str)
  show ?thesis
    unfolding parse_flashcards_def j
    by (simp add: cards_of_data_def dict_get_def py_iter_def get_strip_def strip_def py_isspace_def)
qed

text \<open>
  The filter on a \<open>cards\<close> list. When the entries are all card objects, the parser
  returns, in order, the trimmed question and answer of exactly the entries whose question
  and answer are both non-empty after trimming; the other entries are dropped without an
  error, and nothing compares the number of cards with \<open>max_cards\<close>, which the parser does
  not receive. When some entry is not a card object the loop stops with \<open>AttributeError\<close>.
\<close>

lemma parse_flashcards_filter:
  assumes "loads (json_str raw) = Some (JDict d)"
    and "map_of d ''cards'' = Some (JList items)"
  shows "parse_flashcards loads raw =
           (if list_all is_card_object items
            then Inr (map trimmed_card (filter nonblank items))
            else Inl AttributeError)"
proof -
  have "parse_flashcards loads raw = collect_cards items []"
    using assms(1) cards_of_data_list [OF assms(2)] by (simp add: parse_flashcards_def)
  then show ?thesis
    by (simp add: collect_cards_all_ok collect_cards_some_bad)
qed


text \<open>
  The filter at a response of three entries: an empty question, a card to trim, and a
  missing question.
\<close>

lemma parse_flashcards_filter_example:
  \<open>parse_flashcards
     (map_of
        [(''{"cards":[{"question":"","answer":"A"},{"question":" Q2 ","answer":"A2"},{"answer":"A3"}]}'',
          JDict [(''cards'', JList
            [JDict [(''question'', JStr ''''), (''answer'', JStr ''A'')],
             JDict [(''question'', JStr '' Q2 ''), (''answer'', JStr ''A2'')],
             JDict [(''answer'', JStr ''A3'')]])])])
     ''{"cards":[{"question":"","answer":"A"},{"question":" Q2 ","answer":"A2"},{"answer":"A3"}]}''
   = Inr [\<lparr>question = ''Q2'', answer = ''A2''\<rparr>]\<close>
proof -
  let ?raw = \<open>''{"cards":[{"question":"","answer":"A"},{"question":" Q2 ","answer":"A2"},{"answer":"A3"}]}''\<close>
  let ?items = "[JDict [(''question'', JStr ''''), (''answer'', JStr ''A'')],
             JDict [(''question'', JStr '' Q2 ''), (''answer'', JStr ''A2'')],
             JDict [(''answer'', JStr ''A3'')]]"
  let ?d = "[(''cards'', JList ?items)]"
  have j: "json_str ?raw = ?raw" by (simp add: eval_json_str)
  have l: "map_of [(?raw, JDict ?d)] (json_str ?raw) = Some (JDict ?d)"
    unfolding j by simp
  have c: "map_of ?d ''cards'' = Some (JList ?items)" by simp
  have w: "list_all is_card_object ?items"
    by (simp add: is_card_object_def is_str_field_def)
  have f: "map trimmed_card (filter nonblank ?items) = [\<lparr>question = ''Q2'', answer = ''A2''\<rparr>]"
    by (simp add: nonblank_def trimmed_card_def text_at_def strip_def py_isspace_def)
  show ?thesis
    using parse_flashcards_filter [of "map_of [(?raw, JDict ?d)]" ?raw ?d ?items, OF l c]
    unfolding f using w by simp
qed


text \<open>
  C5. The filter is to keep the entries whose trimmed question and answer are both
  non-empty and to drop every other entry without an error. The parser at a response
  whose one entry has a JSON number as its answer: the entry is not dropped, the call
  \<open>.strip()\<close> on the number raises \<open>AttributeError\<close> and the parse fails, whereas an entry
  with a missing or blank answer is dropped.
\<close>

theorem parse_flashcards_number_answer_raises:
  \<open>parse_flashcards
     (map_of
        [(''{"cards": [{"question": "How many months?", "answer": 12}]}'',
          JDict [(''cards'', JList
            [JDict [(''question'', JStr ''How many months?''), (''answer'', JInt 12)]])])])
     ''{"cards": [{"question": "How many months?", "answer": 12}]}''
   = Inl AttributeError\<close>
proof -
  let ?raw = \<open>''{"cards": [{"question": "How many months?", "answer": 12}]}''\<close>
  have j: "json_str ?raw = ?raw" by (simp add: eval_json_str)
  show ?thesis
    unfolding parse_flashcards_def j
    by (simp add: cards_of_data_def dict_get_def py_iter_def get_strip_def)
qed


text \<open>
  What follows \<open>json.loads\<close>, by the shape of the decoded value: an object without a
  \<open>cards\<close> key, or with the empty list under it, gives no card; a value that is not an
  object has no \<open>get\<close>. A response that begins with \<open>{\<close> and ends with \<open>}\<close> is handed to
  \<open>json.loads\<close> as it is.
\<close>

lemma json_str_whole_object:
  "json_str (CHR ''{'' # mid @ [CHR ''}'']) = CHR ''{'' # mid @ [CHR ''}'']"
  using json_str_pair [of "[]" "[]" mid] by simp

lemma cards_of_data_without_cards:
  assumes "map_of d ''cards'' = None \<or> map_of d ''cards'' = Some (JList [])"
  shows "cards_of_data (JDict d) = Inr []"
  using assms by (auto simp: cards_of_data_def dict_get_def py_iter_def)

lemma cards_of_data_not_object:
  assumes "\<forall>d. data \<noteq> JDict d"
  shows "cards_of_data data = Inl AttributeError"
  using assms by (cases data) (simp_all add: cards_of_data_def)

text \<open>
  C10 (amended). When the text the parser extracts from the response decodes to a JSON
  object that has no \<open>cards\<close> key, or whose \<open>cards\<close> value is the empty list, the parser
  returns the empty list and raises nothing; so it does for a response that is itself
  such an object, from its opening \<open>{\<close> to its closing \<open>}\<close>.
\<close>

theorem parse_flashcards_object_without_cards:
  assumes "map_of d ''cards'' = None \<or> map_of d ''cards'' = Some (JList [])"
  shows "(loads (json_str raw) = Some (JDict d) \<longrightarrow> parse_flashcards loads raw = Inr []) \<and>
         (loads (CHR ''{'' # mid @ [CHR ''}'']) = Some (JDict d) \<longrightarrow>
            parse_flashcards loads (CHR ''{'' # mid @ [CHR ''}'']) = Inr [])"
proof (intro conjI impI)
  assume "loads (json_str raw) = Some (JDict d)"
  then show "parse_flashcards loads raw = Inr []"
    by (simp add: parse_flashcards_def cards_of_data_without_cards [OF assms])
next
  assume "loads (CHR ''{'' # mid @ [CHR ''}'']) = Some (JDict d)"
  then show "parse_flashcards loads (CHR ''{'' # mid @ [CHR ''}'']) = Inr []"
    unfolding parse_flashcards_def json_str_whole_object
    by (simp add: cards_of_data_without_cards [OF assms])
qed

text \<open>
  The theorem at an empty \<open>cards\<close> list after a sentence of prose, and at a response that
  is an object with another key.
\<close>

theorem parse_flashcards_object_without_cards_witness:
  \<open>parse_flashcards (map_of [(''{"cards": []}'', JDict [(''cards'', JList [])])])
     ''Sorry, no cards. {"cards": []}'' = Inr [] \<and>
   parse_flashcards (map_of [(''{"flashcards": []}'', JDict [(''flashcards'', JList [])])])
     ''{"flashcards": []}'' = Inr []\<close>
proof -
  let ?obj = \<open>''{"cards": []}''\<close>
  let ?raw = \<open>''Sorry, no cards. {"cards": []}''\<close>
  let ?d = "[(''cards'', JList [])]"
  have j: "json_str ?raw = ?obj" by (simp add: eval_json_str)
  have l: "map_of [(?obj, JDict ?d)] (json_str ?raw) = Some (JDict ?d)"
    unfolding j by simp
  have c: "map_of ?d ''cards'' = None \<or> map_of ?d ''cards'' = Some (JList [])" by simp
  have a: "parse_flashcards (map_of [(?obj, JDict ?d)]) ?raw = Inr []"
    using parse_flashcards_object_without_cards
      [where d = ?d and loads = "map_of [(?obj, JDict ?d)]" and raw = ?raw, OF c, THEN conjunct1] l
    by (rule mp)
  let ?w = \<open>''{"flashcards": []}''\<close>
  let ?mid = \<open>''"flashcards": []''\<close>
  let ?e = "[(''flashcards'', JList [])]"
  have w: "?w = CHR ''{'' # ?mid @ [CHR ''}'']" by simp
  have m: "map_of [(?w, JDict ?e)] (CHR ''{'' # ?mid @ [CHR ''}'']) = Some (JDict ?e)"
    by simp
  have n: "map_of ?e ''cards'' = None \<or> map_of ?e ''cards'' = Some (JList [])" by simp
  have "parse_flashcards (map_of [(?w, JDict ?e)]) (CHR ''{'' # ?mid @ [CHR ''}'']) = Inr []"
    using parse_flashcards_object_without_cards
      [where d = ?e and loads = "map_of [(?w, JDict ?e)]" and mid = ?mid, OF n, THEN conjunct2] m
    by (rule mp)
  then have b: "parse_flashcards (map_of [(?w, JDict ?e)]) ?w = Inr []" by simp
  from a b show ?thesis by (intro conjI)
qed

text \<open>
  C10 as stated fails at the response \<open>[]\<close>, valid JSON and not an object holding \<open>cards\<close>,
  on which \<open>data.get\<close> raises \<open>AttributeError\<close>; and at the well-formed object
  \<open>{"cards": null}\<close>, of the wrong shape, where the loop over \<open>None\<close> raises \<open>TypeError\<close>.
\<close>

theorem parse_flashcards_wrong_shape_raises:
  \<open>parse_flashcards (map_of [(''[]'', JList [])]) ''[]'' = Inl AttributeError \<and>
   parse_flashcards (map_of [(''{"cards": null}'', JDict [(''cards'', JNull)])])
     ''{"cards": null}'' = Inl TypeError\<close>
proof -
  have a: "parse_flashcards (map_of [(''[]'', JList [])]) ''[]'' = Inl AttributeError"
    by (simp add: parse_flashcards_def eval_json_str cards_of_data_def)
  have j: \<open>json_str ''{"cards": null}'' = ''{"cards": null}''\<close>
    by (simp add: eval_json_str)
  have b: \<open>parse_flashcards (map_of [(''{"cards": null}'', JDict [(''cards'', JNull)])])
     ''{"cards": null}'' = Inl TypeError\<close>
    unfolding parse_flashcards_def j
    by (simp add: cards_of_data_def dict_get_def py_iter_def)
  from a b show ?thesis by (intro conjI)
qed

text \<open>
  A response that is a bare list of one card is cut to the card, an object without
  \<open>cards\<close>: the result is the empty list, not an error.
\<close>

lemma parse_flashcards_bare_list_of_cards:
  \<open>json_str ''[{"question":"Q","answer":"A"}]'' = ''{"question":"Q","answer":"A"}'' \<and>
   parse_flashcards
     (map_of
        [(''{"question":"Q","answer":"A"}'',
          JDict [(''question'', JStr ''Q''), (''answer'', JStr ''A'')])])
     ''[{"question":"Q","answer":"A"}]'' = Inr []\<close>
proof -
  have j: \<open>json_str ''[{"question":"Q","answer":"A"}]'' = ''{"question":"Q","answer":"A"}''\<close>
    by (simp add: eval_json_str)
  have \<open>parse_flashcards
     (map_of
        [(''{"question":"Q","answer":"A"}'',
          JDict [(''question'', JStr ''Q''), (''answer'', JStr ''A'')])])
     ''[{"question":"Q","answer":"A"}]'' = Inr []\<close>
    unfolding parse_flashcards_def j
    by (simp add: cards_of_data_def dict_get_def py_iter_def)
  with j show ?thesis by (intro conjI)
qed

section \<open>What the repository adds to the libraries it calls\<close>

text \<open>
  \<open>create_chunks_in_memory\<close> returns the empty list on empty input and otherwise what the
  splitter returns, an exception of the splitter being wrapped.
\<close>

lemma create_chunks_in_memory_forwards:
  "create_chunks_in_memory split_documents config [] = Inr []"
  "documents \<noteq> [] \<Longrightarrow>
   create_chunks_in_memory split_documents config documents =
     (case split_documents (chunk_size config) (chunk_overlap config) documents of
        Inl e \<Rightarrow> Inl (CustomException e)
      | Inr chunks \<Rightarrow> Inr chunks)"
  by (simp_all add: create_chunks_in_memory_def)

text \<open>
  On documents that the splitter turns into \<open>chunks\<close>, \<open>create_chunks\<close> returns the chunks
  and writes the table of their records, one row per chunk, in the order of the chunks.
\<close>

lemma create_chunks_snapshot:
  assumes "documents \<noteq> []"
    and "split_documents (chunk_size config) (chunk_overlap config) documents = Inr chunks"
  shows "snd (create_chunks split_documents config fs documents) =
           Inr (chunks_file config, chunks)"
    and "files (fst (create_chunks split_documents config fs documents)) (chunks_file config) =
           Some (to_csv (DataFrame (map chunk_record chunks)))"
    and "rows (DataFrame (map chunk_record chunks)) = map chunk_record chunks"
  using assms by (simp_all add: create_chunks_def Let_def write_file_def DataFrame_def)

text \<open>
  When the language model answers, \<open>generate_from_docs\<close> returns what the parser makes of
  the answer: the number of cards asked for is in the prompt only.
\<close>

lemma generate_from_docs_returns_parse:
  assumes "documents \<noteq> []"
    and "split_documents (chunk_size (chunker self)) (chunk_overlap (chunker self)) documents
           = Inr chunks"
    and "chunks \<noteq> []"
    and "llm self (build_prompt (join ''\<newline>\<newline>'' (map page_content chunks))
           (or_default override (max_cards self))) = Inr raw_output"
  shows "snd (generate_from_docs split_documents loads self documents override) =
           parse_flashcards loads raw_output"
  using assms
  by (simp add: generate_from_docs_def create_chunks_in_memory_def Let_def)

lemma generate_from_docs_more_cards_than_asked:
  \<open>snd (generate_from_docs (\<lambda>size overlap docs. Inr docs)
          (map_of
             [(''{"cards":[{"question":"Q1","answer":"A1"},{"question":"Q2","answer":"A2"}]}'',
               JDict [(''cards'', JList
                 [JDict [(''question'', JStr ''Q1''), (''answer'', JStr ''A1'')],
                  JDict [(''question'', JStr ''Q2''), (''answer'', JStr ''A2'')]])])])
          (get_flashcard_pipeline
             (\<lambda>model prompt.
                Inr ''{"cards":[{"question":"Q1","answer":"A1"},{"question":"Q2","answer":"A2"}]}'')
             ''/srv/app'')
          [\<lparr>page_content = ''Interest rates are fixed for 12 months.'', metadata = []\<rparr>]
          (Some 1)) =
     Inr [\<lparr>question = ''Q1'', answer = ''A1''\<rparr>, \<lparr>question = ''Q2'', answer = ''A2''\<rparr>]\<close>
proof -
  let ?raw = \<open>''{"cards":[{"question":"Q1","answer":"A1"},{"question":"Q2","answer":"A2"}]}''\<close>
  let ?items = "[JDict [(''question'', JStr ''Q1''), (''answer'', JStr ''A1'')],
                  JDict [(''question'', JStr ''Q2''), (''answer'', JStr ''A2'')]]"
  let ?loads = "map_of [(?raw, JDict [(''cards'', JList ?items)])]"
  let ?self = "get_flashcard_pipeline (\<lambda>model prompt. Inr ?raw) ''/srv/app''"
  let ?docs = "[\<lparr>page_content = ''Interest rates are fixed for 12 months.'', metadata = []\<rparr>]"
  have j: "json_str ?raw = ?raw" by (simp add: eval_json_str)
  have p: "parse_flashcards ?loads ?raw =
             Inr [\<lparr>question = ''Q1'', answer = ''A1''\<rparr>, \<lparr>question = ''Q2'', answer = ''A2''\<rparr>]"
    unfolding parse_flashcards_def j
    by (simp add: cards_of_data_def dict_get_def py_iter_def get_strip_def strip_def py_isspace_def)
  have l: "llm ?self = (\<lambda>prompt. Inr ?raw)"
    by (simp add: get_flashcard_pipeline_def FlashcardPipeline_init_def)
  have "snd (generate_from_docs (\<lambda>size overlap docs. Inr docs) ?loads ?self ?docs (Some 1)) =
          parse_flashcards ?loads ?raw"
    by (rule generate_from_docs_returns_parse [where chunks = ?docs]) (simp_all add: l)
  then show ?thesis unfolding p .
qed

section \<open>Claims about the snapshot\<close>

lemma to_csv_header_only:
  "to_csv \<lparr>columns = [''text'', ''source'', ''doc_type''], rows = []\<rparr> =
     ''text,source,doc_type\<newline>''"
  by (simp add: to_csv_def csv_row_def csv_field_def)

text \<open>
  C3. On an empty list of documents \<open>create_chunks\<close> creates the snapshot directory and
  writes, at the configured snapshot path, a file that holds the header row
  \<open>text,source,doc_type\<close> and no data row; it returns that path with the empty list of
  chunks. The splitter is not called.
\<close>

theorem create_chunks_empty_input:
  "create_chunks split_documents config fs [] =
     (write_file (makedirs fs (chunks_dir config)) (chunks_file config)
        ''text,source,doc_type\<newline>'',
      Inr (chunks_file config, [])) \<and>
   files (fst (create_chunks split_documents config fs [])) (chunks_file config) =
     Some ''text,source,doc_type\<newline>'' \<and>
   snd (create_chunks split_documents config fs []) = Inr (chunks_file config, [])"
  by (simp add: create_chunks_def Let_def to_csv_header_only write_file_def)

text \<open>The theorem with the default configuration, on an empty file system.\<close>

theorem create_chunks_empty_input_default_config:
  "files (fst (create_chunks (\<lambda>size overlap docs. Inr docs) (DocumentChunking ''/srv/app'')
            \<lparr>files = Map.empty, dirs = {}\<rparr> []))
     ''/srv/app/artifacts/chunks/chunks.csv'' = Some ''text,source,doc_type\<newline>'' \<and>
   snd (create_chunks (\<lambda>size overlap docs. Inr docs) (DocumentChunking ''/srv/app'')
            \<lparr>files = Map.empty, dirs = {}\<rparr> []) =
     Inr (''/srv/app/artifacts/chunks/chunks.csv'', [])"
  using create_chunks_empty_input [of "\<lambda>size overlap docs. Inr docs" "DocumentChunking ''/srv/app''"
      "\<lparr>files = Map.empty, dirs = {}\<rparr>"]
  by (simp add: DocumentChunking_def write_file_def)

section \<open>Claims about \<open>/ask\<close>\<close>

lemma py_slice_prefix:
  assumes "0 \<le> n"
  shows "py_slice xs 0 n = take (nat n) xs"
proof (cases "n \<le> int (length xs)")
  case True
  with assms show ?thesis
    by (simp add: py_slice_def slice_bound_def Let_def min_def)
next
  case False
  then have "length xs \<le> nat n" by simp
  then have "take (nat n) xs = xs" by simp
  with assms False show ?thesis
    by (simp add: py_slice_def slice_bound_def Let_def min_def)
qed

lemma length_strip_le: "length (strip s) \<le> length s"
proof -
  have "length (strip s) \<le> length (dropWhile py_isspace s)"
    unfolding strip_def using length_dropWhile_le [of py_isspace "rev (dropWhile py_isspace s)"]
    by simp
  also have "\<dots> \<le> length s" by (rule length_dropWhile_le)
  finally show ?thesis .
qed

lemma newline_not_in_replace_newlines: "CHR ''\<newline>'' \<notin> set (replace_newlines s)"
  by (induction s) (simp_all add: replace_newlines_def)

lemma length_replace_newlines: "length (replace_newlines s) = length s"
  by (simp add: replace_newlines_def)

lemma build_sources_three: "build_sources docs 3 = map source_summary (take 3 docs)"
  by (simp add: build_sources_def py_slice_prefix)

lemma preview_source_summary:
  "preview (source_summary doc) = replace_newlines (strip (take 280 (page_content doc)))"
  by (simp add: source_summary_def py_slice_prefix)

lemma preview_bounds:
  "length (preview (source_summary doc)) \<le> 280 \<and>
   CHR ''\<newline>'' \<notin> set (preview (source_summary doc))"
proof -
  have "length (strip (take 280 (page_content doc))) \<le> length (take 280 (page_content doc))"
    by (rule length_strip_le)
  then have "length (preview (source_summary doc)) \<le> 280"
    by (simp add: preview_source_summary length_replace_newlines)
  then show ?thesis
    by (simp add: preview_source_summary newline_not_in_replace_newlines)
qed

lemma post_ask_valid_calls_once:
  "valid_AskRequest body \<Longrightarrow>
   fst (post_ask pipeline body) =
     [(req_question body, map (\<lambda>msg. (role msg, content msg)) (req_history body),
       req_doc_type body)]"
  by (simp add: post_ask_def ask_question_def Let_def split: sum.splits prod.splits)

text \<open>
  C7. A request to \<open>/ask\<close> whose question is the empty string fails validation: the
  orchestrator is not called, and the response is the validation failure (status 422),
  not a status 500.
\<close>

theorem post_ask_empty_question_rejected:
  assumes "req_question body = []"
  shows "post_ask pipeline body = ([], RequestValidationError) \<and>
         status_code (snd (post_ask pipeline body)) = 422"
  using assms by (simp add: post_ask_def valid_AskRequest_def status_code_def)

text \<open>The theorem at a body with no history, for an orchestrator that would answer.\<close>

theorem post_ask_empty_question_rejected_witness:
  "post_ask (\<lambda>call. Inr (''an answer'', []))
     \<lparr>req_question = [], req_doc_type = None, req_history = []\<rparr> =
     ([], RequestValidationError)"
  using post_ask_empty_question_rejected [of "\<lparr>req_question = [], req_doc_type = None, req_history = []\<rparr>"
      "\<lambda>call. Inr (''an answer'', [])"]
  by simp

text \<open>
  C8. When \<open>/ask\<close> succeeds, the response carries the answer the orchestrator returned and
  one summary for each of its first three documents, at most three in all; the summary of
  a document holds its \<open>source\<close> and \<open>doc_type\<close> metadata and a preview, which is the first
  280 characters of the text, trimmed, with every newline replaced by a space, so it has
  at most 280 characters and no newline.
\<close>

theorem post_ask_success_sources:
  assumes "post_ask pipeline body = (calls, Returned response)"
  shows "\<exists>docs.
           pipeline (req_question body,
                     map (\<lambda>msg. (role msg, content msg)) (req_history body),
                     req_doc_type body) = Inr (resp_answer response, docs) \<and>
           length (sources response) = min 3 (length docs) \<and>
           (\<forall>i < length (sources response).
              source (sources response ! i) = map_of (metadata (docs ! i)) ''source'' \<and>
              doc_type (sources response ! i) = map_of (metadata (docs ! i)) ''doc_type'' \<and>
              preview (sources response ! i) =
                replace_newlines (strip (take 280 (page_content (docs ! i)))) \<and>
              length (preview (sources response ! i)) \<le> 280 \<and>
              CHR ''\<newline>'' \<notin> set (preview (sources response ! i)))"
proof -
  let ?call = "(req_question body, map (\<lambda>msg. (role msg, content msg)) (req_history body),
                req_doc_type body)"
  from assms have v: "valid_AskRequest body"
    by (simp add: post_ask_def split: if_splits)
  with assms have a: "ask_question pipeline body = (calls, Returned response)"
    by (simp add: post_ask_def)
  then obtain ans docs where p: "pipeline ?call = Inr (ans, docs)"
    by (auto simp: ask_question_def Let_def split: sum.splits)
  with a have r: "response = \<lparr>resp_answer = ans, sources = build_sources docs 3\<rparr>"
    by (simp add: ask_question_def Let_def)
  have s: "sources response = map source_summary (take 3 docs)"
    unfolding r by (simp add: build_sources_three)
  have l: "length (sources response) = min 3 (length docs)"
    unfolding s by (simp add: min.commute)
  have q: "\<forall>i < length (sources response).
              source (sources response ! i) = map_of (metadata (docs ! i)) ''source'' \<and>
              doc_type (sources response ! i) = map_of (metadata (docs ! i)) ''doc_type'' \<and>
              preview (sources response ! i) =
                replace_newlines (strip (take 280 (page_content (docs ! i)))) \<and>
              length (preview (sources response ! i)) \<le> 280 \<and>
              CHR ''\<newline>'' \<notin> set (preview (sources response ! i))"
  proof (intro allI impI)
    fix i
    assume "i < length (sources response)"
    then have i: "i < 3" "i < length docs" unfolding l by simp_all
    then have e: "sources response ! i = source_summary (docs ! i)"
      unfolding s by simp
    have m: "source (source_summary (docs ! i)) = map_of (metadata (docs ! i)) ''source''"
      "doc_type (source_summary (docs ! i)) = map_of (metadata (docs ! i)) ''doc_type''"
      by (simp_all add: source_summary_def)
    show "source (sources response ! i) = map_of (metadata (docs ! i)) ''source'' \<and>
              doc_type (sources response ! i) = map_of (metadata (docs ! i)) ''doc_type'' \<and>
              preview (sources response ! i) =
                replace_newlines (strip (take 280 (page_content (docs ! i)))) \<and>
              length (preview (sources response ! i)) \<le> 280 \<and>
              CHR ''\<newline>'' \<notin> set (preview (sources response ! i))"
      unfolding e using m preview_source_summary [of "docs ! i"] preview_bounds [of "docs ! i"]
      by simp
  qed
  have "pipeline ?call = Inr (resp_answer response, docs)"
    using p unfolding r by simp
  with l q show ?thesis by (intro exI conjI)
qed

text \<open>
  The theorem at an orchestrator that returns four documents, the first with white space
  and a newline in its text.
\<close>

theorem post_ask_success_sources_witness:
  "post_ask
     (\<lambda>call. Inr (''Fixed for 12 months.'',
        [\<lparr>page_content = '' Rates\<newline>are fixed. '',
          metadata = [(''source'', ''terms.pdf''), (''doc_type'', ''product_terms'')]\<rparr>,
         \<lparr>page_content = ''b'', metadata = []\<rparr>,
         \<lparr>page_content = ''c'', metadata = []\<rparr>,
         \<lparr>page_content = ''d'', metadata = []\<rparr>]))
     \<lparr>req_question = ''How long are rates fixed?'', req_doc_type = None, req_history = []\<rparr>
   = ([(''How long are rates fixed?'', [], None)],
      Returned
        \<lparr>resp_answer = ''Fixed for 12 months.'',
         sources =
           [\<lparr>source = Some ''terms.pdf'', doc_type = Some ''product_terms'',
             preview = ''Rates are fixed.''\<rparr>,
            \<lparr>source = None, doc_type = None, preview = ''b''\<rparr>,
            \<lparr>source = None, doc_type = None, preview = ''c''\<rparr>]\<rparr>) \<and>
   length
     (sources
        \<lparr>resp_answer = ''Fixed for 12 months.'',
         sources =
           [\<lparr>source = Some ''terms.pdf'', doc_type = Some ''product_terms'',
             preview = ''Rates are fixed.''\<rparr>,
            \<lparr>source = None, doc_type = None, preview = ''b''\<rparr>,
            \<lparr>source = None, doc_type = None, preview = ''c''\<rparr>]\<rparr>) \<le> 3"
proof -
  let ?docs = "[\<lparr>page_content = '' Rates\<newline>are fixed. '',
          metadata = [(''source'', ''terms.pdf''), (''doc_type'', ''product_terms'')]\<rparr>,
         \<lparr>page_content = ''b'', metadata = []\<rparr>,
         \<lparr>page_content = ''c'', metadata = []\<rparr>,
         \<lparr>page_content = ''d'', metadata = []\<rparr>]"
  let ?pipeline = "\<lambda>call :: orchestrator_call. (Inr (''Fixed for 12 months.'', ?docs) :: exn + string \<times> document list)"
  let ?body = "\<lparr>req_question = ''How long are rates fixed?'', req_doc_type = None, req_history = []\<rparr>"
  let ?response = "\<lparr>resp_answer = ''Fixed for 12 months.'',
         sources =
           [\<lparr>source = Some ''terms.pdf'', doc_type = Some ''product_terms'',
             preview = ''Rates are fixed.''\<rparr>,
            \<lparr>source = None, doc_type = None, preview = ''b''\<rparr>,
            \<lparr>source = None, doc_type = None, preview = ''c''\<rparr>]\<rparr>"
  have h: "post_ask ?pipeline ?body = ([(''How long are rates fixed?'', [], None)], Returned ?response)"
    by (simp add: post_ask_def valid_AskRequest_def ask_question_def build_sources_def
        source_summary_def py_slice_def slice_bound_def replace_newlines_def strip_def
        py_isspace_def)
  note t = post_ask_success_sources [OF h]
  from t obtain docs where c:
    "?pipeline (req_question ?body,
                     map (\<lambda>msg. (role msg, content msg)) (req_history ?body),
                     req_doc_type ?body) = Inr (resp_answer ?response, docs) \<and>
     length (sources ?response) = min 3 (length docs) \<and>
     (\<forall>i < length (sources ?response).
              source (sources ?response ! i) = map_of (metadata (docs ! i)) ''source'' \<and>
              doc_type (sources ?response ! i) = map_of (metadata (docs ! i)) ''doc_type'' \<and>
              preview (sources ?response ! i) =
                replace_newlines (strip (take 280 (page_content (docs ! i)))) \<and>
              length (preview (sources ?response ! i)) \<le> 280 \<and>
              CHR ''\<newline>'' \<notin> set (preview (sources ?response ! i)))" ..
  have "length (sources ?response) = min 3 (length docs)"
    by (rule c [THEN conjunct2, THEN conjunct1])
  then have "length (sources ?response) \<le> 3" by (simp only: min.cobounded1)
  with h show ?thesis by (intro conjI)
qed

section \<open>Claims about \<open>/flashcards\<close>\<close>

lemma or_default_falsy: "or_default None d = d" "or_default (Some 0) d = d"
  by (simp_all add: or_default_def)

lemma or_default_truthy: "n \<noteq> 0 \<Longrightarrow> or_default (Some n) d = n"
  by (simp add: or_default_def)

lemma str_int_20: "str_int 20 = ''20''"
  by (simp add: str_int_def)

lemma generate_from_docs_prompt:
  assumes "documents \<noteq> []"
    and "split_documents (chunk_size (chunker self)) (chunk_overlap (chunker self)) documents
           = Inr chunks"
    and "chunks \<noteq> []"
  shows "fst (generate_from_docs split_documents loads self documents override) =
           [build_prompt (join ''\<newline>\<newline>'' (map page_content chunks))
              (or_default override (max_cards self))]"
  using assms
  by (simp add: generate_from_docs_def create_chunks_in_memory_def Let_def split: sum.splits)

lemma get_flashcard_pipeline_fields:
  "max_cards (get_flashcard_pipeline ChatOpenAI project_root) = 20"
  "chunk_size (chunker (get_flashcard_pipeline ChatOpenAI project_root)) = 1000"
  "chunk_overlap (chunker (get_flashcard_pipeline ChatOpenAI project_root)) = 200"
  by (simp_all add: get_flashcard_pipeline_def FlashcardPipeline_init_def DocumentChunking_def)

text \<open>
  C9. With the pipeline of \<open>get_flashcard_pipeline\<close>, whose \<open>max_cards\<close> is 20, a call of
  \<open>generate_from_docs\<close> with \<open>max_cards = 0\<close> that reaches the language model sends one
  prompt, and that prompt asks for at most 20 flashcards; the call does in every respect
  what the call with \<open>max_cards = None\<close> does.
\<close>

theorem generate_from_docs_zero_max_cards:
  assumes "documents \<noteq> []"
    and "split_documents 1000 200 documents = Inr chunks"
    and "chunks \<noteq> []"
  shows "fst (generate_from_docs split_documents loads
                (get_flashcard_pipeline ChatOpenAI project_root) documents (Some 0)) =
           [prompt_head @ ''20'' @ prompt_body @
              join ''\<newline>\<newline>'' (map page_content chunks) @ prompt_tail] \<and>
         generate_from_docs split_documents loads
           (get_flashcard_pipeline ChatOpenAI project_root) documents (Some 0) =
         generate_from_docs split_documents loads
           (get_flashcard_pipeline ChatOpenAI project_root) documents None"
proof
  let ?self = "get_flashcard_pipeline ChatOpenAI project_root"
  have s: "split_documents (chunk_size (chunker ?self)) (chunk_overlap (chunker ?self)) documents
             = Inr chunks"
    using assms(2) by (simp add: get_flashcard_pipeline_fields)
  show "fst (generate_from_docs split_documents loads ?self documents (Some 0)) =
           [prompt_head @ ''20'' @ prompt_body @
              join ''\<newline>\<newline>'' (map page_content chunks) @ prompt_tail]"
    unfolding generate_from_docs_prompt [where split_documents = split_documents
        and self = ?self, OF assms(1) s assms(3)]
    by (simp add: or_default_falsy get_flashcard_pipeline_fields build_prompt_def str_int_20)
  show "generate_from_docs split_documents loads ?self documents (Some 0) =
        generate_from_docs split_documents loads ?self documents None"
    by (simp add: generate_from_docs_def Let_def or_default_falsy split: sum.splits)
qed

text \<open>
  The theorem at one document, for a splitter that returns the documents as they are.
\<close>

theorem generate_from_docs_zero_max_cards_witness:
  "fst (generate_from_docs (\<lambda>size overlap docs. Inr docs) (\<lambda>s. None)
          (get_flashcard_pipeline (\<lambda>model prompt. Inr ''{}'') ''/srv/app'')
          [\<lparr>page_content = ''Interest rates are fixed for 12 months.'', metadata = []\<rparr>]
          (Some 0)) =
     [prompt_head @ ''20'' @ prompt_body @ ''Interest rates are fixed for 12 months.'' @
        prompt_tail]"
proof -
  let ?docs = "[\<lparr>page_content = ''Interest rates are fixed for 12 months.'', metadata = []\<rparr>]"
  have a: "?docs \<noteq> []" by simp
  have b: "(\<lambda>size overlap docs. Inr docs) (1000 :: int) (200 :: int) ?docs = (Inr ?docs :: exn + document list)"
    by simp
  note t = generate_from_docs_zero_max_cards [of ?docs "\<lambda>size overlap docs. Inr docs" ?docs
      "\<lambda>s. None" "\<lambda>model prompt. Inr ''{}''" "''/srv/app''", OF a b a, THEN conjunct1]
  from t show ?thesis by simp
qed

text \<open>
  The temporary file of \<open>generate_flashcards\<close>, path by path. When reading the upload or
  creating the file fails, the file system is unchanged. When the upload has been written,
  the \<open>finally\<close> removes the file whatever loading, generation and the building of the
  response do. When writing fails, the file that \<open>NamedTemporaryFile\<close> created stays: the
  inner \<open>try\<close> has not been entered.
\<close>

lemma os_remove_gone: "files (fst (os_remove fs path)) path = None"
  by (simp add: os_remove_def)

lemma os_remove_existing:
  "files fs path \<noteq> None \<Longrightarrow> os_remove fs path = (fs\<lparr>files := (files fs)(path := None)\<rparr>, None)"
  by (simp add: os_remove_def)

lemma generate_flashcards_read_error:
  "read_result io = Inl exc \<Longrightarrow>
   generate_flashcards PyPDFLoader split_documents loads flashcard_pipeline fs io n =
     (fs, HTTPException 500 exc)"
  by (simp add: generate_flashcards_def)

lemma generate_flashcards_create_error:
  "read_result io = Inr contents \<Longrightarrow> create_error io = Some exc \<Longrightarrow>
   generate_flashcards PyPDFLoader split_documents loads flashcard_pipeline fs io n =
     (fs, HTTPException 500 exc)"
  by (simp add: generate_flashcards_def)

lemma generate_flashcards_write_error:
  "read_result io = Inr contents \<Longrightarrow> create_error io = None \<Longrightarrow> write_error io = Some exc \<Longrightarrow>
   generate_flashcards PyPDFLoader split_documents loads flashcard_pipeline fs io n =
     (write_file fs (tmp_name io) [], HTTPException 500 exc)"
  by (simp add: generate_flashcards_def Let_def)

lemma generate_flashcards_after_write:
  assumes "read_result io = Inr contents" "create_error io = None" "write_error io = None"
  shows "generate_flashcards PyPDFLoader split_documents loads flashcard_pipeline fs io n =
     (fs\<lparr>files := (files fs)(tmp_name io := None)\<rparr>,
      case flashcards_body PyPDFLoader split_documents loads flashcard_pipeline
             (write_file (write_file fs (tmp_name io) []) (tmp_name io) contents)
             (tmp_name io) n of
        Inl exc \<Rightarrow> HTTPException 500 exc
      | Inr response \<Rightarrow> Returned response)"
proof -
  let ?fs2 = "write_file (write_file fs (tmp_name io) []) (tmp_name io) contents"
  have e: "files ?fs2 (tmp_name io) \<noteq> None" by (simp add: write_file_def)
  have r: "os_remove ?fs2 (tmp_name io) = (fs\<lparr>files := (files fs)(tmp_name io := None)\<rparr>, None)"
    unfolding os_remove_existing [OF e] by (simp add: write_file_def)
  show ?thesis
    using assms by (simp add: generate_flashcards_def Let_def r split: sum.splits)
qed

lemma generate_flashcards_written_file_removed:
  assumes "read_result io = Inr contents" "create_error io = None" "write_error io = None"
  shows "files (fst (generate_flashcards PyPDFLoader split_documents loads flashcard_pipeline
                       fs io n)) (tmp_name io) = None"
  unfolding generate_flashcards_after_write [OF assms] by simp

text \<open>
  C4. The handler at an upload whose writing to the temporary file raises \<open>OSError\<close>: the
  request ends with status 500 and the temporary file that was created still exists,
  whereas C4 has the file gone on every exit path of an execution that created it.
\<close>

theorem generate_flashcards_write_error_leaves_file:
  "generate_flashcards PyPDFLoader split_documents loads flashcard_pipeline
     \<lparr>files = Map.empty, dirs = {}\<rparr>
     \<lparr>read_result = Inr ''%PDF-1.7'', tmp_name = ''/tmp/tmpk3v9x2.pdf'',
      create_error = None, write_error = Some OSError\<rparr> 20 =
   (\<lparr>files = [''/tmp/tmpk3v9x2.pdf'' \<mapsto> []], dirs = {}\<rparr>, HTTPException 500 OSError) \<and>
   files (fst (generate_flashcards PyPDFLoader split_documents loads flashcard_pipeline
     \<lparr>files = Map.empty, dirs = {}\<rparr>
     \<lparr>read_result = Inr ''%PDF-1.7'', tmp_name = ''/tmp/tmpk3v9x2.pdf'',
      create_error = None, write_error = Some OSError\<rparr> 20)) ''/tmp/tmpk3v9x2.pdf'' = Some []"
  by (simp add: generate_flashcards_def Let_def write_file_def)

end
